theory Spec2Isabelle
  imports Main
begin

section \<open>JavaScript values\<close>

text \<open>
  The SDK is TypeScript compiled to JavaScript; the values that flow through it (query
  results of the parsed XML, template bindings, rejection reasons) are untyped at run
  time. A JavaScript number is either a numeric value or NaN; the numeric values that
  occur here are integers (revision numbers, HTTP status codes). Rounding of very large
  integers to the nearest double is not modelled.
\<close>

datatype js_number = Num int | NaN

datatype js_value =
    JUndefined
  | JNull
  | JString string
  | JNumber js_number
  | JArray "js_value list"
  | JObject "(string \<times> js_value) list"

definition digit_char :: "nat \<Rightarrow> char" where
  "digit_char d = ''0123456789'' ! d"

fun show_nat :: "nat \<Rightarrow> string" where
  "show_nat n = (if n < 10 then [digit_char n] else show_nat (n div 10) @ [digit_char (n mod 10)])"

declare show_nat.simps [simp del]

definition show_int :: "int \<Rightarrow> string" where
  "show_int i = (if i < 0 then CHR ''-'' # show_nat (nat (- i)) else show_nat (nat i))"

fun show_number :: "js_number \<Rightarrow> string" where
  "show_number (Num i) = show_int i"
| "show_number NaN = ''NaN''"

fun join :: "string \<Rightarrow> string list \<Rightarrow> string" where
  "join sep [] = []"
| "join sep [x] = x"
| "join sep (x # y # ys) = x @ sep @ join sep (y # ys)"

text \<open>
  String conversion, as performed by a template literal \<^verbatim>\<open>`${v}`\<close> and by a property
  access \<^verbatim>\<open>obj[v]\<close>. Inside an array, null and undefined render as the empty string.
\<close>

fun js_toString :: "js_value \<Rightarrow> string" where
  "js_toString JUndefined = ''undefined''"
| "js_toString JNull = ''null''"
| "js_toString (JString s) = s"
| "js_toString (JNumber n) = show_number n"
| "js_toString (JArray xs) =
     join '','' (map (\<lambda>x. if x = JUndefined \<or> x = JNull then [] else js_toString x) xs)"
| "js_toString (JObject kvs) = ''[object Object]''"

text \<open>lodash \<^verbatim>\<open>_.isEmpty\<close>: strings and arrays by length, objects by own keys, every
  other value (null, undefined, numbers) counts as empty.\<close>

fun isEmpty :: "js_value \<Rightarrow> bool" where
  "isEmpty (JString s) = (s = [])"
| "isEmpty (JArray xs) = (xs = [])"
| "isEmpty (JObject kvs) = (kvs = [])"
| "isEmpty _ = True"

text \<open>Truthiness of an optional string argument: null, undefined and \<^verbatim>\<open>""\<close> are falsy.\<close>

fun truthy :: "string option \<Rightarrow> bool" where
  "truthy None = False"
| "truthy (Some s) = (s \<noteq> [])"

section \<open>Errors and promises\<close>

text \<open>
  Error objects. \<^verbatim>\<open>class EmptyError extends Error\<close> and \<^verbatim>\<open>class ParseError extends Error\<close>
  store the constructor's argument in \<open>message\<close>; \<open>name\<close> is declared but never assigned,
  so an instance has the name of \<^verbatim>\<open>Error.prototype\<close>, which is "Error".
\<close>

datatype error_class = PlainError | EmptyErrorClass | ParseErrorClass

record Error =
  error_class :: error_class
  name :: string
  message :: string

text \<open>\<^verbatim>\<open>typeof\<close> of an object, whatever its class.\<close>

definition typeof :: "Error \<Rightarrow> string" where
  "typeof e = ''object''"

text \<open>
  \<^verbatim>\<open>rejectWithError(error, reject)\<close>: the value handed to \<^verbatim>\<open>reject\<close>.
\<close>

definition rejectWithError :: "Error \<Rightarrow> string" where
  "rejectWithError error =
     (let errorType = typeof error in
      if errorType = ''ParseError'' then
        ''Response parsing error: '' @ message error @ ''. Please consult https://mxforum.mendix.com/''
      else if errorType = ''EmptyError'' then
        ''Empty response error: '' @ message error @ ''. Please consult https://mxforum.mendix.com/''
      else
        name error @ '': '' @ message error @ ''. Please consult https://mxforum.mendix.com/'')"

definition new_ParseError :: "string \<Rightarrow> Error" where
  "new_ParseError msg = \<lparr>error_class = ParseErrorClass, name = ''Error'', message = msg\<rparr>"

definition new_EmptyError :: "string \<Rightarrow> Error" where
  "new_EmptyError msg = \<lparr>error_class = EmptyErrorClass, name = ''Error'', message = msg\<rparr>"

text \<open>String conversion of an error object (\<^verbatim>\<open>Error.prototype.toString\<close>).\<close>

definition error_toString :: "Error \<Rightarrow> string" where
  "error_toString e = name e @ '': '' @ message e"

text \<open>
  A promise is settled with a value, settled with a rejection reason, or never settled.
  A reason is whatever was handed to \<^verbatim>\<open>reject\<close>: a plain value (mostly a string) or an
  error object.
\<close>

datatype reason = Value js_value | Thrown Error

datatype 'a promise = Fulfilled 'a | Rejected reason | Pending

text \<open>\<^verbatim>\<open>p.then(f)\<close> with a success handler only: rejections pass through.\<close>

fun then_promise :: "'a promise \<Rightarrow> ('a \<Rightarrow> 'b promise) \<Rightarrow> 'b promise" where
  "then_promise (Fulfilled x) f = f x"
| "then_promise (Rejected r) f = Rejected r"
| "then_promise Pending f = Pending"

section \<open>Requests, responses and the external libraries\<close>

record RequestContents =
  path :: string
  http_method :: string
  headers :: "(string \<times> string) list"
  request_entity :: string
  mixin :: "(string \<times> string) list"

text \<open>
  A response of the \<^verbatim>\<open>rest\<close> client: \<open>error\<close> is set on a transport failure (held here by
  its string conversion), \<open>status\<close> is absent or carries the HTTP code, \<open>statusMessage\<close> is
  \<^verbatim>\<open>response.raw.response.statusMessage\<close>. The entity is the raw body at first; later
  pipeline stages replace it.
\<close>

record Status =
  code :: int

record 'e Response =
  error :: "string option"
  status :: "Status option"
  statusMessage :: string
  entity :: 'e

definition set_entity :: "'b \<Rightarrow> 'a Response \<Rightarrow> 'b Response" where
  "set_entity v response =
     \<lparr>error = error response, status = status response,
      statusMessage = statusMessage response, entity = v\<rparr>"

text \<open>
  The libraries the SDK calls are parameters of the model:
  \<^item> \<open>compileXmlPayload\<close>: reading a template file and applying the lodash template to
    the bindings (the template files are not part of the sources);
  \<^item> \<open>parseString\<close>: xml2js, giving an error object or the parsed document;
  \<^item> \<open>query\<close>: \<^verbatim>\<open>jsonpath.query\<close>, giving the list of all matches of a path, or
    throwing: it asserts that its first argument is an object, and xml2js calls back with
    no error and a null document for a body of white space only.
\<close>

record 't env =
  compileXmlPayload :: "string \<Rightarrow> (string \<times> js_value) list \<Rightarrow> string"
  parseString :: "string \<Rightarrow> Error + 't"
  query :: "'t \<Rightarrow> string \<Rightarrow> Error + js_value list"

text \<open>\<^verbatim>\<open>xs[0]\<close>: undefined on an empty array.\<close>

definition first :: "js_value list \<Rightarrow> js_value" where
  "first xs = (case xs of [] \<Rightarrow> JUndefined | x # _ \<Rightarrow> x)"

section \<open>PlatformSdkClient: request construction and response pipeline\<close>

definition PROJECTS_API_PATH :: string where
  "PROJECTS_API_PATH = ''/ws/ProjectsAPI/9/soap1''"

definition HTTP_STATUS_OK_RESPONSE_CODE :: int where
  "HTTP_STATUS_OK_RESPONSE_CODE = 200"

definition HTTP_STATUS_WS_ERROR_RESPONSE_CODE :: int where
  "HTTP_STATUS_WS_ERROR_RESPONSE_CODE = 500"

definition compilePayload :: "'t env \<Rightarrow> string \<Rightarrow> (string \<times> js_value) list \<Rightarrow> string" where
  "compilePayload env template data = compileXmlPayload env template data"

definition createRequestContent ::
  "'t env \<Rightarrow> string \<Rightarrow> (string \<times> js_value) list \<Rightarrow> RequestContents" where
  "createRequestContent env template data =
     (let payload = compilePayload env template data in
      \<lparr>path = PROJECTS_API_PATH, http_method = ''POST'',
       headers = [(''Content-Type'', ''text/xml;charset=UTF-8'')],
       request_entity = payload,
       mixin = []\<rparr>)"

text \<open>
  \<^verbatim>\<open>_parseAndQuery(xml, query)\<close>. The ParseError is constructed from the error object of
  xml2js, which becomes its message; the message is held by its string conversion. Nothing
  stands between the parser's callback and the query: an error thrown by the query rejects
  the promise with that error.
\<close>

definition parseAndQuery :: "'t env \<Rightarrow> string \<Rightarrow> string \<Rightarrow> js_value promise" where
  "parseAndQuery env xml q =
     (case parseString env xml of
        Inl err \<Rightarrow> Rejected (Thrown (new_ParseError (error_toString err)))
      | Inr result \<Rightarrow>
          (case query env result q of
             Inl thrown \<Rightarrow> Rejected (Thrown thrown)
           | Inr matches \<Rightarrow>
               (let parseResult = first matches in
                if isEmpty parseResult then
                  Rejected (Thrown (new_EmptyError
                    (''Query '' @ q @ '' on '' @ js_toString parseResult @
                     '' does not give any result'')))
                else Fulfilled parseResult)))"

text \<open>The \<open>success\<close> handler of the interceptor built by \<^verbatim>\<open>_parseResult()\<close>.\<close>

definition parseResult :: "'t env \<Rightarrow> string Response \<Rightarrow> js_value Response promise" where
  "parseResult env response =
     (if entity response = [] then
        Rejected (Value (JString ''Error: HTTP response entity missing''))
      else
        then_promise (parseAndQuery env (entity response) ''$..Result[0]'')
          (\<lambda>result. Fulfilled (set_entity result response)))"

record JobResult =
  jobId :: js_value
  startTime :: js_value
  endTime :: js_value
  state :: js_value
  result :: js_value
  errorMessage :: js_value

text \<open>The job result as the JavaScript value it is: the object of its six fields.\<close>

definition JobResult_value :: "JobResult \<Rightarrow> js_value" where
  "JobResult_value jobResult =
     JObject [(''jobId'', jobId jobResult),
              (''startTime'', startTime jobResult),
              (''endTime'', endTime jobResult),
              (''state'', state jobResult),
              (''result'', result jobResult),
              (''errorMessage'', errorMessage jobResult)]"

text \<open>
  \<^verbatim>\<open>_parseJobResult(parsed)\<close>: six queries in the order of the source; the first one that
  throws ends the function with its error.
\<close>

definition parseJobResult :: "'t env \<Rightarrow> 't \<Rightarrow> Error + JobResult" where
  "parseJobResult env parsed =
     (case query env parsed ''$..JobId[0]'' of Inl thrown \<Rightarrow> Inl thrown | Inr jobIds \<Rightarrow>
      case query env parsed ''$..StartTime[0]'' of Inl thrown \<Rightarrow> Inl thrown | Inr startTimes \<Rightarrow>
      case query env parsed ''$..EndTime[0]'' of Inl thrown \<Rightarrow> Inl thrown | Inr endTimes \<Rightarrow>
      case query env parsed ''$..State[0]'' of Inl thrown \<Rightarrow> Inl thrown | Inr states \<Rightarrow>
      case query env parsed ''$..Result[0]'' of Inl thrown \<Rightarrow> Inl thrown | Inr results \<Rightarrow>
      case query env parsed ''$..ErrorMessage[0]'' of Inl thrown \<Rightarrow> Inl thrown
      | Inr errorMessages \<Rightarrow>
          Inr \<lparr>jobId = first jobIds,
               startTime = first startTimes,
               endTime = first endTimes,
               state = first states,
               result = first results,
               errorMessage = first errorMessages\<rparr>)"

text \<open>
  The \<open>success\<close> handler of the interceptor built by \<^verbatim>\<open>_parseJobStatus()\<close>. An error
  thrown by \<^verbatim>\<open>_parseJobResult\<close> inside the parser's callback rejects the promise.
\<close>

definition parseJobStatus :: "'t env \<Rightarrow> string Response \<Rightarrow> JobResult Response promise" where
  "parseJobStatus env response =
     (if entity response = [] then
        Rejected (Value (JString ''Error: HTTP response entity missing''))
      else
        (case parseString env (entity response) of
           Inl err \<Rightarrow> Rejected (Thrown err)
         | Inr parsed \<Rightarrow>
             (case parseJobResult env parsed of
                Inl thrown \<Rightarrow> Rejected (Thrown thrown)
              | Inr jobResult \<Rightarrow> Fulfilled (set_entity jobResult response))))"

text \<open>
  The \<open>response\<close> handler of the interceptor built by
  \<^verbatim>\<open>_createHttpErrorCodeInterceptor(errorMessage)\<close> (the parameter is \<open>errMessage\<close> here).
  It sees every response, also the ones the transport failed on.
\<close>

definition createHttpErrorCodeInterceptor ::
  "'t env \<Rightarrow> string \<Rightarrow> string Response \<Rightarrow> string Response promise" where
  "createHttpErrorCodeInterceptor env errMessage response =
     (case error response of
        Some e \<Rightarrow> Rejected (Value (JString (''Connection error: '' @ e)))
      | None \<Rightarrow>
          (case status response of
             None \<Rightarrow> Rejected (Value (JString ''Error: invalid HTTP response''))
           | Some st \<Rightarrow>
               if entity response = [] then
                 Rejected (Value (JString ''Error: invalid HTTP response''))
               else if code st = HTTP_STATUS_OK_RESPONSE_CODE then Fulfilled response
               else if code st = HTTP_STATUS_WS_ERROR_RESPONSE_CODE then
                 (case parseAndQuery env (entity response) ''$..faultstring[0]'' of
                    Fulfilled cause \<Rightarrow>
                      Rejected (Value (JString (errMessage @ '': '' @ js_toString cause)))
                  | Rejected err \<Rightarrow> Rejected err
                  | Pending \<Rightarrow> Pending)
               else
                 Rejected (Value (JString
                   (''Unexpected HTTP response code: '' @ show_int (code st) @ '' '' @
                    statusMessage response @
                    ''. Please retry after a few minutes. If the problem persists, please consult https://mxforum.mendix.com'')))))"

section \<open>Transport\<close>

text \<open>
  The log of calls made to the outside, in order: HTTP requests handed to the transport and
  calls of the model connection's \<^verbatim>\<open>closeConnection\<close>, with the continuation it invoked.
\<close>

datatype callback = OnSuccess | OnError reason | NoCallback

datatype event = HttpRequest RequestContents | CloseConnection callback

text \<open>
  The remote service is scripted: \<open>responses\<close> holds the responses the transport will
  deliver, one per request, in order. A request sent when the script is exhausted is never
  answered. The fixed delay of 1000 ms before each poll is not modelled.
\<close>

record world =
  responses :: "string Response list"
  trace :: "event list"

text \<open>The \<^verbatim>\<open>pathPrefix\<close> interceptor of \<^verbatim>\<open>rest\<close>, for a path that starts with a slash.\<close>

definition pathPrefix :: "string \<Rightarrow> RequestContents \<Rightarrow> RequestContents" where
  "pathPrefix prefix request = request\<lparr>path := prefix @ path request\<rparr>"

definition transport :: "RequestContents \<Rightarrow> world \<Rightarrow> string Response option \<times> world" where
  "transport request w =
     (case responses w of
        [] \<Rightarrow> (None, w\<lparr>trace := trace w @ [HttpRequest request]\<rparr>)
      | r # rs \<Rightarrow> (Some r, w\<lparr>responses := rs, trace := trace w @ [HttpRequest request]\<rparr>))"

record PlatformSdkClient =
  username :: "string option"
  apikey :: "string option"
  projectsApiEndpoint :: string

definition js_of_option :: "string option \<Rightarrow> js_value" where
  "js_of_option x = (case x of None \<Rightarrow> JNull | Some s \<Rightarrow> JString s)"

definition templatePath :: "string \<Rightarrow> string" where
  "templatePath filename = ''templates/'' @ filename"

definition CreateNewAppXml :: string where
  "CreateNewAppXml = templatePath ''CreateNewApp.xml''"

definition CreateOnlineWorkingCopyXml :: string where
  "CreateOnlineWorkingCopyXml = templatePath ''CreateOnlineWorkingCopy.xml''"

definition CommitWorkingCopyChangesXml :: string where
  "CommitWorkingCopyChangesXml = templatePath ''CommitWorkingCopyChanges.xml''"

definition RetrieveJobStatusXml :: string where
  "RetrieveJobStatusXml = templatePath ''RetrieveJobStatus.xml''"

text \<open>
  \<^verbatim>\<open>rest.wrap(errorCode).wrap(parseResult).wrap(pathPrefix)\<close>: the request passes the path
  prefix and reaches the transport; the response passes the status classification, then the
  result extraction.
\<close>

definition resultPipeline :: "'t env \<Rightarrow> string \<Rightarrow> string Response \<Rightarrow> js_value Response promise" where
  "resultPipeline env errMessage response =
     then_promise (createHttpErrorCodeInterceptor env errMessage response) (parseResult env)"

definition apiClient ::
  "'t env \<Rightarrow> PlatformSdkClient \<Rightarrow> string \<Rightarrow> RequestContents \<Rightarrow> world
     \<Rightarrow> js_value Response promise \<times> world" where
  "apiClient env client errMessage request w =
     (case transport (pathPrefix (projectsApiEndpoint client) request) w of
        (None, w') \<Rightarrow> (Pending, w')
      | (Some response, w') \<Rightarrow> (resultPipeline env errMessage response, w'))"

text \<open>The \<^verbatim>\<open>client\<close> built inside \<^verbatim>\<open>_awaitJobResult\<close>, with \<^verbatim>\<open>_parseJobStatus()\<close> as second stage.\<close>

definition jobStatusPipeline :: "'t env \<Rightarrow> string Response \<Rightarrow> JobResult Response promise" where
  "jobStatusPipeline env response =
     then_promise (createHttpErrorCodeInterceptor env ''Error when retrieving job status'' response)
       (parseJobStatus env)"

section \<open>Job polling\<close>

text \<open>\<^verbatim>\<open>_awaitJobResult(jobId)\<close> below takes the job id as \<open>jid\<close>.\<close>

datatype JobState = Running | Completed | Failed

fun JobState_value :: "JobState \<Rightarrow> js_value" where
  "JobState_value Running = JNumber (Num 0)"
| "JobState_value Completed = JNumber (Num 1)"
| "JobState_value Failed = JNumber (Num 2)"

text \<open>
  \<^verbatim>\<open>JobState[key]\<close> on the object a TypeScript enum compiles to: names map to numbers and
  numbers back to names. Any other key gives undefined or an inherited property of the
  object, neither of which is a number; both are undefined here.
\<close>

definition JobState_index :: "js_value \<Rightarrow> js_value" where
  "JobState_index key =
     (let k = js_toString key in
      if k = ''Running'' then JNumber (Num 0)
      else if k = ''Completed'' then JNumber (Num 1)
      else if k = ''Failed'' then JNumber (Num 2)
      else if k = ''0'' then JString ''Running''
      else if k = ''1'' then JString ''Completed''
      else if k = ''2'' then JString ''Failed''
      else JUndefined)"

text \<open>The request of one poll, as it reaches the transport.\<close>

definition statusRequest :: "'t env \<Rightarrow> PlatformSdkClient \<Rightarrow> js_value \<Rightarrow> RequestContents" where
  "statusRequest env client jid =
     pathPrefix (projectsApiEndpoint client)
       (createRequestContent env RetrieveJobStatusXml [(''JobId'', jid)])"

function awaitJobResult ::
  "'t env \<Rightarrow> PlatformSdkClient \<Rightarrow> js_value \<Rightarrow> world \<Rightarrow> JobResult promise \<times> world" where
  "awaitJobResult env client jid w =
     (case transport (statusRequest env client jid) w of
        (None, w') \<Rightarrow> (Pending, w')
      | (Some response0, w') \<Rightarrow>
          (case jobStatusPipeline env response0 of
             Rejected r \<Rightarrow> (Rejected r, w')
           | Pending \<Rightarrow> (Pending, w')
           | Fulfilled response \<Rightarrow>
               (let st = state (entity response) in
                if JobState_index st = JobState_value Completed then
                  (Fulfilled (entity response), w')
                else if JobState_index st = JobState_value Failed then
                  (Rejected (Value (errorMessage (entity response))), w')
                else awaitJobResult env client jid w')))"
  by pat_completeness auto
termination
  by (relation "measure (\<lambda>(env, client, jid, w). length (responses w))")
     (auto simp: transport_def split: list.splits)

declare awaitJobResult.simps [simp del]

section \<open>Projects, branches, revisions and working copies\<close>

text \<open>
  The private fields \<^verbatim>\<open>_id\<close>, \<^verbatim>\<open>_name\<close>, \<^verbatim>\<open>_project\<close>, ... of the classes, without the
  back-reference to the client (the client is passed to the operations instead). A branch
  name is optional (null is the main line); the project of a branch may be null, which
  \<^verbatim>\<open>commitToTeamServer\<close> checks.
\<close>

record Project =
  project_id :: string
  project_name :: string

record Branch =
  branch_project :: "Project option"
  branch_name :: "string option"

record Revision =
  num :: js_number
  branch :: Branch

text \<open>
  The model handle of the external model SDK. Its \<^verbatim>\<open>closeConnection(onSuccess, onError)\<close>
  is described by the continuation it invokes.
\<close>

record IModel =
  closeConnection :: callback

record OnlineWorkingCopy =
  wc_id :: string
  sourceRevision :: Revision
  model :: IModel

definition project :: "OnlineWorkingCopy \<Rightarrow> Project option" where
  "project wc = branch_project (branch (sourceRevision wc))"

section \<open>parseInt\<close>

text \<open>
  \<^verbatim>\<open>parseInt(v)\<close> without radix: the argument is converted to a string, leading white space
  and a sign are skipped, a \<^verbatim>\<open>0x\<close> prefix selects radix 16, and the longest prefix of digits
  is read; with no digit at all the result is NaN.
\<close>

definition is_space :: "char \<Rightarrow> bool" where
  "is_space c = (let n = (of_char c :: nat) in (9 \<le> n \<and> n \<le> 13) \<or> n = 32)"

definition digit_value :: "char \<Rightarrow> nat option" where
  "digit_value c =
     (let n = (of_char c :: nat) in
      if 48 \<le> n \<and> n \<le> 57 then Some (n - 48)
      else if 97 \<le> n \<and> n \<le> 122 then Some (n - 87)
      else if 65 \<le> n \<and> n \<le> 90 then Some (n - 55)
      else None)"

fun parse_digits :: "nat \<Rightarrow> nat option \<Rightarrow> string \<Rightarrow> nat option" where
  "parse_digits R acc [] = acc"
| "parse_digits R acc (c # cs) =
     (case digit_value c of
        None \<Rightarrow> acc
      | Some d \<Rightarrow>
          if d < R then parse_digits R (Some (R * (case acc of None \<Rightarrow> 0 | Some a \<Rightarrow> a) + d)) cs
          else acc)"

definition parseInt :: "js_value \<Rightarrow> js_number" where
  "parseInt v =
     (let S = dropWhile is_space (js_toString v);
          sign = (if take 1 S = ''-'' then - 1 else 1 :: int);
          S1 = (if take 1 S = ''+'' \<or> take 1 S = ''-'' then drop 1 S else S);
          hex = (take 2 S1 = ''0x'' \<or> take 2 S1 = ''0X'');
          R = (if hex then 16 else 10);
          S2 = (if hex then drop 2 S1 else S1)
      in case parse_digits R None S2 of
           None \<Rightarrow> NaN
         | Some n \<Rightarrow> Num (sign * int n))"





text \<open>\<^verbatim>\<open>v == null\<close>: true of null and undefined only.\<close>

definition loosely_null :: "js_value \<Rightarrow> bool" where
  "loosely_null v = (v = JNull \<or> v = JUndefined)"

section \<open>Committing to the team server\<close>

text \<open>Chaining on a promise whose continuation performs further requests.\<close>

fun then_io ::
  "'a promise \<times> world \<Rightarrow> ('a \<Rightarrow> world \<Rightarrow> 'b promise \<times> world) \<Rightarrow> 'b promise \<times> world" where
  "then_io (Fulfilled x, w) f = f x w"
| "then_io (Rejected r, w) f = (Rejected r, w)"
| "then_io (Pending, w) f = (Pending, w)"

text \<open>
  The last \<^verbatim>\<open>.then(jobResult => ...)\<close> handler of \<^verbatim>\<open>commitToTeamServer\<close>, which turns the
  job result into a revision.
\<close>

definition commitToTeamServer_revision ::
  "OnlineWorkingCopy \<Rightarrow> string option \<Rightarrow> JobResult \<Rightarrow> Revision promise" where
  "commitToTeamServer_revision workingCopy branchName jobResult =
     (let n = parseInt (result jobResult) in
      if loosely_null (JNumber n) then
        Rejected (Value (JString
          (''Failed to commit changes to team server: revision '' @ show_number n @
           '' on branch '' @ js_toString (js_of_option branchName) @
           ''. Reason: returned job id is not a number.'')))
      else
        (let b = \<lparr>branch_project = project workingCopy, branch_name = branchName\<rparr>;
             revision = \<lparr>num = n, branch = b\<rparr>
         in Fulfilled revision))"

text \<open>
  \<^verbatim>\<open>commitToTeamServer(workingCopy, branchName = null, baseRevision = -1)\<close>. The working copy
  may be null; an omitted base revision takes the default. Base revisions are integers here.
\<close>

definition commitToTeamServer ::
  "'t env \<Rightarrow> PlatformSdkClient \<Rightarrow> OnlineWorkingCopy option \<Rightarrow> string option \<Rightarrow> int option
     \<Rightarrow> world \<Rightarrow> Revision promise \<times> world" where
  "commitToTeamServer env client workingCopy branchName baseRevisionArg w =
     (let baseRevision = (case baseRevisionArg of None \<Rightarrow> - 1 | Some r \<Rightarrow> r) in
      if workingCopy = None \<or> project (the workingCopy) = None then
        (Rejected (Value (JString
           ''Working copy is empty or does not contain referral to project'')), w)
      else if baseRevision < - 1 then
        (Rejected (Value (JString (''Invalid base revision '' @ show_int baseRevision))), w)
      else
        (let wc = the workingCopy;
             request = createRequestContent env CommitWorkingCopyChangesXml
               [(''Username'', js_of_option (username client)),
                (''ApiKey'', js_of_option (apikey client)),
                (''WorkingCopyId'', JString (wc_id wc)),
                (''ProjectId'', JString (project_id (the (project wc)))),
                (''Branch'', js_of_option branchName),
                (''Revision'', JNumber (Num baseRevision))]
         in then_io
              (then_io (apiClient env client ''Failed to commit to team server'' request w)
                 (\<lambda>response. awaitJobResult env client (entity response)))
              (\<lambda>jobResult w'. (commitToTeamServer_revision wc branchName jobResult, w'))))"

text \<open>
  \<^verbatim>\<open>OnlineWorkingCopy.commit(branchName?, baseRevision?)\<close>: close the model connection, then
  commit.
\<close>

definition commit ::
  "'t env \<Rightarrow> PlatformSdkClient \<Rightarrow> OnlineWorkingCopy \<Rightarrow> string option \<Rightarrow> int option
     \<Rightarrow> world \<Rightarrow> Revision promise \<times> world" where
  "commit env client this branchName baseRevision w =
     (let cb = closeConnection (model this);
          w' = w\<lparr>trace := trace w @ [CloseConnection cb]\<rparr>
      in case cb of
           OnSuccess \<Rightarrow> commitToTeamServer env client (Some this) branchName baseRevision w'
         | OnError err \<Rightarrow> (Rejected err, w')
         | NoCallback \<Rightarrow> (Pending, w'))"

section \<open>Constructing the client\<close>

datatype credentials =
    ApiKeyCredentials "string option" string
  | OpenIdCredentials "string option" string string

record ModelSdkClient =
  credentials :: credentials
  endPoint :: string

record MendixSdkClient =
  modelSdkClient :: ModelSdkClient
  platformSdkClient :: PlatformSdkClient

definition DEFAULT_MODELAPI_ENDPOINT :: string where
  "DEFAULT_MODELAPI_ENDPOINT = ''https://model-api.cfapps.io''"

definition DEFAULT_PROJECTSAPI_ENDPOINT :: string where
  "DEFAULT_PROJECTSAPI_ENDPOINT = ''https://sprintr.home.mendix.com''"

text \<open>
  \<^verbatim>\<open>new MendixSdkClient(username, apikey?, password?, openid?, projectsApiEndpoint?,
  modelApiEndpoint?)\<close>; an argument that is null, undefined or not given is \<open>None\<close>. The
  constructor throws or returns the client; it sends nothing.
\<close>

definition new_MendixSdkClient ::
  "string option \<Rightarrow> string option \<Rightarrow> string option \<Rightarrow> string option \<Rightarrow> string option
     \<Rightarrow> string option \<Rightarrow> Error + MendixSdkClient" where
  "new_MendixSdkClient usernameArg apikeyArg password openid projectsApiEndpointArg modelApiEndpoint =
     (case (if truthy apikeyArg then
              Inr (ApiKeyCredentials usernameArg (the apikeyArg))
            else if truthy password \<and> truthy openid then
              Inr (OpenIdCredentials usernameArg (the password) (the openid))
            else
              Inl \<lparr>error_class = PlainError, name = ''Error'',
                   message = ''Incomplete credentials''\<rparr>) of
        Inl thrown \<Rightarrow> Inl thrown
      | Inr creds \<Rightarrow>
          Inr \<lparr>modelSdkClient =
                 \<lparr>credentials = creds,
                  endPoint = (if truthy modelApiEndpoint then the modelApiEndpoint
                              else DEFAULT_MODELAPI_ENDPOINT)\<rparr>,
               platformSdkClient =
                 \<lparr>username = usernameArg, apikey = apikeyArg,
                  projectsApiEndpoint =
                    (if truthy projectsApiEndpointArg then the projectsApiEndpointArg
                     else DEFAULT_PROJECTSAPI_ENDPOINT)\<rparr>\<rparr>)"

section \<open>A scripted environment for the examples\<close>

text \<open>
  The theorems below hold for every environment. Their instances are evaluated in this one:
  the XML parser knows a handful of documents, with the object xml2js builds for each, and
  fails on every other string; for a body of white space it gives, as xml2js does, no
  error and the null document. The path query handles paths of the shape
  \<^verbatim>\<open>$..Name[0]\<close>: the members called \<open>Name\<close> anywhere in the object, and of each one that
  is a non-empty array its first element; on a document that is not an object it throws
  the assertion error of jsonpath.
\<close>

fun members_named :: "string \<Rightarrow> (string \<times> js_value) list \<Rightarrow> js_value list" where
  "members_named k [] = []"
| "members_named k ((k', v) # kvs) =
     (if k' = k then v # members_named k kvs else members_named k kvs)"

fun descendants :: "string \<Rightarrow> js_value \<Rightarrow> js_value list" where
  "descendants k (JObject kvs) =
     members_named k kvs @ concat (map (\<lambda>kv. descendants k (snd kv)) kvs)"
| "descendants k (JArray xs) = concat (map (descendants k) xs)"
| "descendants k v = []"

fun index0 :: "js_value \<Rightarrow> js_value list" where
  "index0 (JArray (x # xs)) = [x]"
| "index0 v = []"

definition AssertionError :: Error where
  "AssertionError =
     \<lparr>error_class = PlainError, name = ''AssertionError'',
      message = ''obj needs to be an object''\<rparr>"

fun is_object :: "js_value \<Rightarrow> bool" where
  "is_object (JObject kvs) = True"
| "is_object (JArray xs) = True"
| "is_object v = False"

definition example_query :: "js_value \<Rightarrow> string \<Rightarrow> Error + js_value list" where
  "example_query tree q =
     (if \<not> is_object tree then Inl AssertionError
      else if take 3 q = ''$..'' \<and> drop (length q - 3) q = ''[0]''
      then Inr (concat (map index0 (descendants (take (length q - 6) (drop 3 q)) tree)))
      else Inr [])"

definition running_xml :: string where
  "running_xml = ''<Job><State>Running</State></Job>''"

definition completed_xml :: string where
  "completed_xml = ''<Job><State>Completed</State><Result>app-42</Result></Job>''"

definition failed_xml :: string where
  "failed_xml = ''<Job><State>Failed</State><ErrorMessage>No such revision</ErrorMessage></Job>''"

definition stateless_xml :: string where
  "stateless_xml = ''<Job><JobId>J1</JobId></Job>''"

definition fault_xml :: string where
  "fault_xml = ''<Fault><faultstring>Project does not exist</faultstring></Fault>''"

definition empty_result_xml :: string where
  "empty_result_xml = ''<Job><Result></Result></Job>''"

definition submitted_xml :: string where
  "submitted_xml = ''<Job><Result>J1</Result></Job>''"

definition committed_xml :: string where
  "committed_xml = ''<Job><State>Completed</State><Result>3</Result></Job>''"

definition fault_detail_xml :: string where
  "fault_detail_xml =
     ''<Fault><faultstring><text>Project does not exist</text></faultstring></Fault>''"

definition blank_xml :: string where
  "blank_xml = ''  ''"

definition documents :: "(string \<times> js_value) list" where
  "documents =
    [(running_xml,
        JObject [(''Job'', JObject [(''State'', JArray [JString ''Running''])])]),
     (completed_xml,
        JObject [(''Job'', JObject [(''State'', JArray [JString ''Completed'']),
                                    (''Result'', JArray [JString ''app-42''])])]),
     (failed_xml,
        JObject [(''Job'', JObject [(''State'', JArray [JString ''Failed'']),
                                    (''ErrorMessage'', JArray [JString ''No such revision''])])]),
     (stateless_xml,
        JObject [(''Job'', JObject [(''JobId'', JArray [JString ''J1''])])]),
     (fault_xml,
        JObject [(''Fault'', JObject [(''faultstring'', JArray [JString ''Project does not exist''])])]),
     (empty_result_xml,
        JObject [(''Job'', JObject [(''Result'', JArray [JString []])])]),
     (submitted_xml,
        JObject [(''Job'', JObject [(''Result'', JArray [JString ''J1''])])]),
     (committed_xml,
        JObject [(''Job'', JObject [(''State'', JArray [JString ''Completed'']),
                                    (''Result'', JArray [JString ''3''])])]),
     (fault_detail_xml,
        JObject [(''Fault'', JObject [(''faultstring'',
           JArray [JObject [(''text'', JArray [JString ''Project does not exist''])]])])]),
     (blank_xml, JNull)]"

definition example_parseString :: "string \<Rightarrow> Error + js_value" where
  "example_parseString xml =
     (case map_of documents xml of
        None \<Rightarrow> Inl \<lparr>error_class = PlainError, name = ''Error'', message = ''Unclosed root tag''\<rparr>
      | Some tree \<Rightarrow> Inr tree)"

definition example_env :: "js_value env" where
  "example_env =
     \<lparr>compileXmlPayload =
        (\<lambda>template data. template @ concat (map (\<lambda>kv. '' '' @ fst kv @ ''='' @ js_toString (snd kv)) data)),
      parseString = example_parseString,
      query = example_query\<rparr>"

definition example_client :: PlatformSdkClient where
  "example_client =
     \<lparr>username = Some ''richard'', apikey = Some ''364f'',
      projectsApiEndpoint = ''https://sprintr.home.mendix.dev''\<rparr>"

definition http_response :: "int \<Rightarrow> string \<Rightarrow> string \<Rightarrow> string Response" where
  "http_response c msg body =
     \<lparr>error = None, status = Some \<lparr>code = c\<rparr>, statusMessage = msg, entity = body\<rparr>"

definition example_project :: Project where
  "example_project = \<lparr>project_id = ''P-99'', project_name = ''Foo''\<rparr>"

definition example_workingCopy :: "callback \<Rightarrow> OnlineWorkingCopy" where
  "example_workingCopy cb =
     \<lparr>wc_id = ''wc-1'',
      sourceRevision =
        \<lparr>num = Num (- 1),
         branch = \<lparr>branch_project = Some example_project, branch_name = None\<rparr>\<rparr>,
      model = \<lparr>closeConnection = cb\<rparr>\<rparr>"

lemmas example_documents =
  documents_def running_xml_def completed_xml_def failed_xml_def stateless_xml_def
  fault_xml_def empty_result_xml_def submitted_xml_def committed_xml_def
  fault_detail_xml_def blank_xml_def

section \<open>The error translator\<close>

lemma rejectWithError_default:
  "rejectWithError e = name e @ '': '' @ message e @ ''. Please consult https://mxforum.mendix.com/''"
  by (simp add: rejectWithError_def typeof_def)

text \<open>
  C6. The claim: a failure of kind ParseError is surfaced as
  "Response parsing error: {detail}. {supportLink}" and one of kind EmptyResultError as
  "Empty response error: {detail}. {supportLink}". The code dispatches on
  \<^verbatim>\<open>typeof (error)\<close>, which is "object" for every error object, so neither case is ever
  taken: a ParseError with detail "Unclosed root tag" is surfaced through the default
  case, as "Error: Unclosed root tag. ...", and the text "Response parsing error" does not
  appear.
\<close>

theorem rejectWithError_ParseError_default_case:
  "error_class (new_ParseError ''Unclosed root tag'') = ParseErrorClass \<and>
   rejectWithError (new_ParseError ''Unclosed root tag'') =
     ''Error: Unclosed root tag. Please consult https://mxforum.mendix.com/'' \<and>
   rejectWithError (new_ParseError ''Unclosed root tag'') \<noteq>
     ''Response parsing error: Unclosed root tag. Please consult https://mxforum.mendix.com/''"
  by (simp add: rejectWithError_default new_ParseError_def)

section \<open>Credentials\<close>

text \<open>
  C5. The claim: the constructor accepts exactly the two credential shapes {username,
  apiKey} and {username, password, openIdProvider}, and raises "Incomplete credentials"
  for every other combination of arguments. The code tests the API key, then password and
  OpenID provider, and never the username: with a null username and an API key, which is
  neither of the two shapes, it does not raise but builds both clients with the username
  null.
\<close>

theorem new_MendixSdkClient_no_username_accepted:
  "new_MendixSdkClient None (Some ''364f'') None None None None =
     Inr \<lparr>modelSdkClient =
            \<lparr>credentials = ApiKeyCredentials None ''364f'',
             endPoint = ''https://model-api.cfapps.io''\<rparr>,
          platformSdkClient =
            \<lparr>username = None, apikey = Some ''364f'',
             projectsApiEndpoint = ''https://sprintr.home.mendix.com''\<rparr>\<rparr>"
  by (simp add: new_MendixSdkClient_def DEFAULT_MODELAPI_ENDPOINT_def
      DEFAULT_PROJECTSAPI_ENDPOINT_def)

section \<open>The polling loop\<close>

lemma awaitJobResult_step:
  "awaitJobResult env client jid \<lparr>responses = r # rs, trace = tr\<rparr> =
     (let w' = \<lparr>responses = rs, trace = tr @ [HttpRequest (statusRequest env client jid)]\<rparr> in
      case jobStatusPipeline env r of
        Rejected e \<Rightarrow> (Rejected e, w')
      | Pending \<Rightarrow> (Pending, w')
      | Fulfilled response \<Rightarrow>
          if JobState_index (state (entity response)) = JobState_value Completed then
            (Fulfilled (entity response), w')
          else if JobState_index (state (entity response)) = JobState_value Failed then
            (Rejected (Value (errorMessage (entity response))), w')
          else awaitJobResult env client jid w')"
  by (subst awaitJobResult.simps) (simp add: transport_def Let_def split: promise.splits)

lemma awaitJobResult_exhausted:
  "awaitJobResult env client jid \<lparr>responses = [], trace = tr\<rparr> =
     (Pending, \<lparr>responses = [], trace = tr @ [HttpRequest (statusRequest env client jid)]\<rparr>)"
  by (subst awaitJobResult.simps) (simp add: transport_def)

lemma JobState_index_simps:
  "JobState_index (JString ''Running'') = JNumber (Num 0)"
  "JobState_index (JString ''Completed'') = JNumber (Num 1)"
  "JobState_index (JString ''Failed'') = JNumber (Num 2)"
  "JobState_index JUndefined = JUndefined"
  by (simp_all add: JobState_index_def)

text \<open>Responses that the pipeline accepts and that report the state Running.\<close>

lemma awaitJobResult_running:
  assumes "\<forall>r \<in> set rs. \<exists>resp. jobStatusPipeline env r = Fulfilled resp \<and>
             state (entity resp) = JString ''Running''"
  shows "awaitJobResult env client jid \<lparr>responses = rs @ rest, trace = tr\<rparr> =
         awaitJobResult env client jid
           \<lparr>responses = rest,
            trace = tr @ replicate (length rs) (HttpRequest (statusRequest env client jid))\<rparr>"
  using assms
proof (induction rs arbitrary: tr)
  case Nil
  then show ?case by simp
next
  case (Cons r rs)
  from Cons.prems obtain resp where r: "jobStatusPipeline env r = Fulfilled resp"
    "state (entity resp) = JString ''Running''" by auto
  have rest: "\<forall>r \<in> set rs. \<exists>resp. jobStatusPipeline env r = Fulfilled resp \<and>
                state (entity resp) = JString ''Running''"
    using Cons.prems by simp
  show ?case
    using Cons.IH [OF rest, of "tr @ [HttpRequest (statusRequest env client jid)]"] r
    by (simp add: awaitJobResult_step JobState_index_simps replicate_append_same)
qed

text \<open>
  C1, amended: in a polling loop, every status response with state Running is followed by
  exactly one further status request, and a response with state Completed resolves the
  promise of the loop with the whole job result of that response, the object of its six
  fields, from which the caller reads \<open>result\<close>: after \<open>n\<close> Running responses and a
  Completed one, exactly \<open>n + 1\<close> status requests have been issued, the remaining responses
  are untouched, and the promise is fulfilled with that job result.
\<close>

theorem awaitJobResult_round_trip:
  assumes "\<forall>r \<in> set rs. \<exists>resp. jobStatusPipeline env r = Fulfilled resp \<and>
             state (entity resp) = JString ''Running''"
    and "jobStatusPipeline env c = Fulfilled final"
    and "state (entity final) = JString ''Completed''"
  shows "awaitJobResult env client jid \<lparr>responses = rs @ c # rest, trace = tr\<rparr> =
         (Fulfilled (entity final),
          \<lparr>responses = rest,
           trace = tr @ replicate (Suc (length rs)) (HttpRequest (statusRequest env client jid))\<rparr>)"
proof -
  have "awaitJobResult env client jid \<lparr>responses = rs @ c # rest, trace = tr\<rparr> =
        awaitJobResult env client jid
          \<lparr>responses = c # rest,
           trace = tr @ replicate (length rs) (HttpRequest (statusRequest env client jid))\<rparr>"
    by (rule awaitJobResult_running [OF assms(1)])
  also have "\<dots> = (Fulfilled (entity final),
      \<lparr>responses = rest,
       trace = (tr @ replicate (length rs) (HttpRequest (statusRequest env client jid))) @
               [HttpRequest (statusRequest env client jid)]\<rparr>)"
    using assms(2,3) by (simp add: awaitJobResult_step JobState_index_simps)
  finally show ?thesis by (simp add: replicate_append_same)
qed

lemma example_running:
  "jobStatusPipeline example_env (http_response 200 ''OK'' running_xml) =
     Fulfilled \<lparr>error = None, status = Some \<lparr>code = 200\<rparr>, statusMessage = ''OK'',
       entity = \<lparr>jobId = JUndefined, startTime = JUndefined, endTime = JUndefined,
                 state = JString ''Running'', result = JUndefined,
                 errorMessage = JUndefined\<rparr>\<rparr>"
  by (simp add: jobStatusPipeline_def createHttpErrorCodeInterceptor_def http_response_def
      parseJobStatus_def example_env_def example_parseString_def HTTP_STATUS_OK_RESPONSE_CODE_def parseJobResult_def set_entity_def example_query_def
      first_def example_documents)

lemma example_completed:
  "jobStatusPipeline example_env (http_response 200 ''OK'' completed_xml) =
     Fulfilled \<lparr>error = None, status = Some \<lparr>code = 200\<rparr>, statusMessage = ''OK'',
       entity = \<lparr>jobId = JUndefined, startTime = JUndefined, endTime = JUndefined,
                 state = JString ''Completed'', result = JString ''app-42'',
                 errorMessage = JUndefined\<rparr>\<rparr>"
  by (simp add: jobStatusPipeline_def createHttpErrorCodeInterceptor_def http_response_def
      parseJobStatus_def example_env_def example_parseString_def HTTP_STATUS_OK_RESPONSE_CODE_def parseJobResult_def set_entity_def example_query_def
      first_def example_documents)

theorem awaitJobResult_round_trip_witness:
  "awaitJobResult example_env example_client (JString ''J1'')
     \<lparr>responses = [http_response 200 ''OK'' running_xml, http_response 200 ''OK'' running_xml,
                   http_response 200 ''OK'' completed_xml],
      trace = []\<rparr> =
   (Fulfilled \<lparr>jobId = JUndefined, startTime = JUndefined, endTime = JUndefined,
               state = JString ''Completed'', result = JString ''app-42'',
               errorMessage = JUndefined\<rparr>,
    \<lparr>responses = [],
     trace = [HttpRequest (statusRequest example_env example_client (JString ''J1'')),
              HttpRequest (statusRequest example_env example_client (JString ''J1'')),
              HttpRequest (statusRequest example_env example_client (JString ''J1''))]\<rparr>)"
  using awaitJobResult_round_trip
    [where env = example_env and client = example_client and jid = "JString ''J1''"
       and rs = "[http_response 200 ''OK'' running_xml, http_response 200 ''OK'' running_xml]"
       and c = "http_response 200 ''OK'' completed_xml" and rest = "[]" and tr = "[]",
     OF _ example_completed]
  by (simp add: example_running)

text \<open>
  C1, as stated: the Completed response resolves the operation with \<open>JobResult.result\<close>,
  so that the sequence Running, Running, Completed with result "app-42" resolves with
  "app-42". It fails: the promise is resolved with the job result itself, an object that
  has "app-42" in its \<open>result\<close> field, and not with the string.
\<close>

theorem awaitJobResult_resolves_with_job_result:
  "fst (awaitJobResult example_env example_client (JString ''J1'')
          \<lparr>responses = [http_response 200 ''OK'' running_xml,
                        http_response 200 ''OK'' running_xml,
                        http_response 200 ''OK'' completed_xml],
           trace = []\<rparr>) =
     Fulfilled \<lparr>jobId = JUndefined, startTime = JUndefined, endTime = JUndefined,
                state = JString ''Completed'', result = JString ''app-42'',
                errorMessage = JUndefined\<rparr> \<and>
   JobResult_value
     \<lparr>jobId = JUndefined, startTime = JUndefined, endTime = JUndefined,
      state = JString ''Completed'', result = JString ''app-42'',
      errorMessage = JUndefined\<rparr> =
     JObject [(''jobId'', JUndefined), (''startTime'', JUndefined), (''endTime'', JUndefined),
              (''state'', JString ''Completed''), (''result'', JString ''app-42''),
              (''errorMessage'', JUndefined)] \<and>
   JobResult_value
     \<lparr>jobId = JUndefined, startTime = JUndefined, endTime = JUndefined,
      state = JString ''Completed'', result = JString ''app-42'',
      errorMessage = JUndefined\<rparr> \<noteq> JString ''app-42''"
  by (simp add: awaitJobResult_step example_running example_completed JobState_index_simps
      JobResult_value_def)

text \<open>
  C2. In a polling loop, a status response with state Failed rejects the operation with
  the \<open>errorMessage\<close> of that response itself, nothing added: after \<open>n\<close> Running responses
  and a Failed one the promise is rejected with exactly that value, after \<open>n + 1\<close> status
  requests.
\<close>

theorem awaitJobResult_failed:
  assumes "\<forall>r \<in> set rs. \<exists>resp. jobStatusPipeline env r = Fulfilled resp \<and>
             state (entity resp) = JString ''Running''"
    and "jobStatusPipeline env f = Fulfilled final"
    and "state (entity final) = JString ''Failed''"
  shows "awaitJobResult env client jid \<lparr>responses = rs @ f # rest, trace = tr\<rparr> =
         (Rejected (Value (errorMessage (entity final))),
          \<lparr>responses = rest,
           trace = tr @ replicate (Suc (length rs)) (HttpRequest (statusRequest env client jid))\<rparr>)"
proof -
  have "awaitJobResult env client jid \<lparr>responses = rs @ f # rest, trace = tr\<rparr> =
        awaitJobResult env client jid
          \<lparr>responses = f # rest,
           trace = tr @ replicate (length rs) (HttpRequest (statusRequest env client jid))\<rparr>"
    by (rule awaitJobResult_running [OF assms(1)])
  also have "\<dots> = (Rejected (Value (errorMessage (entity final))),
      \<lparr>responses = rest,
       trace = (tr @ replicate (length rs) (HttpRequest (statusRequest env client jid))) @
               [HttpRequest (statusRequest env client jid)]\<rparr>)"
    using assms(2,3) by (simp add: awaitJobResult_step JobState_index_simps)
  finally show ?thesis by (simp add: replicate_append_same)
qed

lemma example_failed:
  "jobStatusPipeline example_env (http_response 200 ''OK'' failed_xml) =
     Fulfilled \<lparr>error = None, status = Some \<lparr>code = 200\<rparr>, statusMessage = ''OK'',
       entity = \<lparr>jobId = JUndefined, startTime = JUndefined, endTime = JUndefined,
                 state = JString ''Failed'', result = JUndefined,
                 errorMessage = JString ''No such revision''\<rparr>\<rparr>"
  by (simp add: jobStatusPipeline_def createHttpErrorCodeInterceptor_def http_response_def
      parseJobStatus_def example_env_def example_parseString_def HTTP_STATUS_OK_RESPONSE_CODE_def parseJobResult_def set_entity_def example_query_def
      first_def example_documents)

theorem awaitJobResult_failed_witness:
  "awaitJobResult example_env example_client (JString ''J1'')
     \<lparr>responses = [http_response 200 ''OK'' running_xml, http_response 200 ''OK'' failed_xml],
      trace = []\<rparr> =
   (Rejected (Value (JString ''No such revision'')),
    \<lparr>responses = [],
     trace = [HttpRequest (statusRequest example_env example_client (JString ''J1'')),
              HttpRequest (statusRequest example_env example_client (JString ''J1''))]\<rparr>)"
  using awaitJobResult_failed
    [where env = example_env and client = example_client and jid = "JString ''J1''"
       and rs = "[http_response 200 ''OK'' running_xml]"
       and f = "http_response 200 ''OK'' failed_xml" and rest = "[]" and tr = "[]",
     OF _ example_failed]
  by (simp add: example_running)

section \<open>Parsing a job status\<close>

lemma example_stateless:
  "jobStatusPipeline example_env (http_response 200 ''OK'' stateless_xml) =
     Fulfilled \<lparr>error = None, status = Some \<lparr>code = 200\<rparr>, statusMessage = ''OK'',
       entity = \<lparr>jobId = JString ''J1'', startTime = JUndefined, endTime = JUndefined,
                 state = JUndefined, result = JUndefined, errorMessage = JUndefined\<rparr>\<rparr>"
  by (simp add: jobStatusPipeline_def createHttpErrorCodeInterceptor_def http_response_def
      parseJobStatus_def example_env_def example_parseString_def
      HTTP_STATUS_OK_RESPONSE_CODE_def parseJobResult_def set_entity_def example_query_def
      first_def example_documents)

text \<open>
  C4, as stated: a status response without a State element makes the operation fail with
  an InvalidResponseError rather than continue. It fails: the job result of such a response
  has an undefined state, which is neither Completed nor Failed, so the poller goes on.
  Here the first response has no State element; a second status request is issued and the
  operation is resolved by the second response.
\<close>

theorem awaitJobResult_stateless_continues:
  "awaitJobResult example_env example_client (JString ''J1'')
     \<lparr>responses = [http_response 200 ''OK'' stateless_xml, http_response 200 ''OK'' completed_xml],
      trace = []\<rparr> =
   (Fulfilled \<lparr>jobId = JUndefined, startTime = JUndefined, endTime = JUndefined,
               state = JString ''Completed'', result = JString ''app-42'',
               errorMessage = JUndefined\<rparr>,
    \<lparr>responses = [],
     trace = [HttpRequest (statusRequest example_env example_client (JString ''J1'')),
              HttpRequest (statusRequest example_env example_client (JString ''J1''))]\<rparr>)"
  by (simp add: awaitJobResult_step example_stateless example_completed JobState_index_simps)

text \<open>
  C4, amended: for every status response that has no transport error, status 200 and a
  body that the XML parser accepts and on which the six path queries return, parsing reads
  JobId, StartTime, EndTime, State, Result and ErrorMessage each independently: each field
  of the job result is the first match of its own query, whatever the other queries find.
  The absence of each field is tolerated, State included: a field whose query finds
  nothing is undefined, and parsing does not fail. When State is absent in such a
  response, the poller treats the response like Running and issues the next status
  request.
\<close>

theorem parseJobStatus_tolerates_absence:
  assumes "error r = None" and "status r = Some st" and "code st = 200"
    and "entity r \<noteq> []" and "parseString env (entity r) = Inr parsed"
    and "query env parsed ''$..JobId[0]'' = Inr jobIds"
    and "query env parsed ''$..StartTime[0]'' = Inr startTimes"
    and "query env parsed ''$..EndTime[0]'' = Inr endTimes"
    and "query env parsed ''$..State[0]'' = Inr states"
    and "query env parsed ''$..Result[0]'' = Inr results"
    and "query env parsed ''$..ErrorMessage[0]'' = Inr errorMessages"
  shows "jobStatusPipeline env r =
      Fulfilled (set_entity
        \<lparr>jobId = first jobIds, startTime = first startTimes, endTime = first endTimes,
         state = first states, result = first results,
         errorMessage = first errorMessages\<rparr> r) \<and>
    (jobIds = [] \<longrightarrow> first jobIds = JUndefined) \<and>
    (startTimes = [] \<longrightarrow> first startTimes = JUndefined) \<and>
    (endTimes = [] \<longrightarrow> first endTimes = JUndefined) \<and>
    (states = [] \<longrightarrow> first states = JUndefined) \<and>
    (results = [] \<longrightarrow> first results = JUndefined) \<and>
    (errorMessages = [] \<longrightarrow> first errorMessages = JUndefined) \<and>
    (states = [] \<longrightarrow>
       awaitJobResult env client jid \<lparr>responses = r # rs, trace = tr\<rparr> =
       awaitJobResult env client jid
         \<lparr>responses = rs, trace = tr @ [HttpRequest (statusRequest env client jid)]\<rparr>)"
proof -
  let ?jobResult = "\<lparr>jobId = first jobIds, startTime = first startTimes,
    endTime = first endTimes, state = first states, result = first results,
    errorMessage = first errorMessages\<rparr>"
  have parsed: "parseJobResult env parsed = Inr ?jobResult"
    using assms(6-11) by (simp add: parseJobResult_def)
  have pipeline: "jobStatusPipeline env r = Fulfilled (set_entity ?jobResult r)"
    using assms(1-5) parsed
    by (simp add: jobStatusPipeline_def createHttpErrorCodeInterceptor_def parseJobStatus_def
        HTTP_STATUS_OK_RESPONSE_CODE_def)
  have absent: "first [] = JUndefined"
    by (simp add: first_def)
  have continues: "states = [] \<longrightarrow>
       awaitJobResult env client jid \<lparr>responses = r # rs, trace = tr\<rparr> =
       awaitJobResult env client jid
         \<lparr>responses = rs, trace = tr @ [HttpRequest (statusRequest env client jid)]\<rparr>"
    by (simp add: awaitJobResult_step pipeline set_entity_def absent JobState_index_simps)
  from pipeline absent continues show ?thesis by simp
qed

theorem parseJobStatus_tolerates_absence_witness:
  "jobStatusPipeline example_env (http_response 200 ''OK'' stateless_xml) =
     Fulfilled \<lparr>error = None, status = Some \<lparr>code = 200\<rparr>, statusMessage = ''OK'',
       entity = \<lparr>jobId = JString ''J1'', startTime = JUndefined, endTime = JUndefined,
                 state = JUndefined, result = JUndefined, errorMessage = JUndefined\<rparr>\<rparr> \<and>
   awaitJobResult example_env example_client (JString ''J1'')
     \<lparr>responses = [http_response 200 ''OK'' stateless_xml], trace = []\<rparr> =
   awaitJobResult example_env example_client (JString ''J1'')
     \<lparr>responses = [],
      trace = [HttpRequest (statusRequest example_env example_client (JString ''J1''))]\<rparr>"
  using parseJobStatus_tolerates_absence
    [where env = example_env and r = "http_response 200 ''OK'' stateless_xml"
       and st = "\<lparr>code = 200\<rparr>"
       and parsed = "JObject [(''Job'', JObject [(''JobId'', JArray [JString ''J1''])])]"
       and jobIds = "[JString ''J1'']" and startTimes = "[]" and endTimes = "[]"
       and states = "[]" and results = "[]" and errorMessages = "[]"
       and client = example_client and jid = "JString ''J1''" and rs = "[]" and tr = "[]"]
  by (simp add: http_response_def example_env_def example_parseString_def
      set_entity_def example_query_def first_def example_documents)

section \<open>Status classification and result extraction\<close>

text \<open>
  C3, as stated: every response with HTTP status 500 fails with the caller's context, a
  colon and a space, and the fault string of the body. It fails when the faultstring
  element holds more than text, here a child element: the first match of the query is then
  an object, and the message ends with the string conversion of that object instead of
  the fault string.
\<close>

theorem httpErrorCode_500_fault_object:
  "createHttpErrorCodeInterceptor example_env ''Failed to create online working copy''
     (http_response 500 ''Internal Server Error'' fault_detail_xml) =
   Rejected (Value (JString ''Failed to create online working copy: [object Object]''))"
  by (simp add: createHttpErrorCodeInterceptor_def parseAndQuery_def http_response_def
      example_env_def example_parseString_def example_query_def first_def
      HTTP_STATUS_OK_RESPONSE_CODE_def HTTP_STATUS_WS_ERROR_RESPONSE_CODE_def
      example_documents)

text \<open>
  C3, amended: for every response that passes the earlier checks of the status
  classification (no transport error, a status, a non-empty body) and has HTTP status 500,
  the stage queries the body with the path \<^verbatim>\<open>$..faultstring[0]\<close> and rejects with the
  caller's context, a colon and a space, and the string conversion of the first match:
  the fault string itself when the match is a string, that is when the element holds text
  only, and "[object Object]" when the match is an object, that is when the element has
  attributes or children. When no fault string can be extracted, the underlying error is
  the rejection instead: the ParseError when the parser rejects the body, the EmptyError
  when the query finds nothing or something empty, and the error thrown by the query when
  it throws, as it does on the null document of a blank body.
\<close>

theorem httpErrorCode_500_fault:
  assumes "error response = None" and "status response = Some st" and "code st = 500"
    and "entity response \<noteq> []"
  shows "(\<forall>err. parseString env (entity response) = Inl err \<longrightarrow>
      createHttpErrorCodeInterceptor env ctx response =
        Rejected (Thrown (new_ParseError (error_toString err)))) \<and>
    (\<forall>tree thrown. parseString env (entity response) = Inr tree \<and>
        query env tree ''$..faultstring[0]'' = Inl thrown \<longrightarrow>
      createHttpErrorCodeInterceptor env ctx response = Rejected (Thrown thrown)) \<and>
    (\<forall>tree matches. parseString env (entity response) = Inr tree \<and>
        query env tree ''$..faultstring[0]'' = Inr matches \<longrightarrow>
      (if isEmpty (first matches) then
         createHttpErrorCodeInterceptor env ctx response =
           Rejected (Thrown (new_EmptyError
             (''Query $..faultstring[0] on '' @ js_toString (first matches) @
              '' does not give any result'')))
       else
         createHttpErrorCodeInterceptor env ctx response =
           Rejected (Value (JString (ctx @ '': '' @ js_toString (first matches)))))) \<and>
    (\<forall>tree matches faultstring. parseString env (entity response) = Inr tree \<and>
        query env tree ''$..faultstring[0]'' = Inr matches \<and>
        first matches = JString faultstring \<and> faultstring \<noteq> [] \<longrightarrow>
      createHttpErrorCodeInterceptor env ctx response =
        Rejected (Value (JString (ctx @ '': '' @ faultstring)))) \<and>
    (\<forall>tree matches members. parseString env (entity response) = Inr tree \<and>
        query env tree ''$..faultstring[0]'' = Inr matches \<and>
        first matches = JObject members \<and> members \<noteq> [] \<longrightarrow>
      createHttpErrorCodeInterceptor env ctx response =
        Rejected (Value (JString (ctx @ '': [object Object]''))))"
proof -
  have "createHttpErrorCodeInterceptor env ctx response =
      (case parseAndQuery env (entity response) ''$..faultstring[0]'' of
         Fulfilled cause \<Rightarrow> Rejected (Value (JString (ctx @ '': '' @ js_toString cause)))
       | Rejected err \<Rightarrow> Rejected err
       | Pending \<Rightarrow> Pending)"
    using assms
    by (simp add: createHttpErrorCodeInterceptor_def HTTP_STATUS_OK_RESPONSE_CODE_def
        HTTP_STATUS_WS_ERROR_RESPONSE_CODE_def)
  then show ?thesis
    by (auto simp: parseAndQuery_def Let_def)
qed

theorem httpErrorCode_500_fault_witness:
  "createHttpErrorCodeInterceptor example_env ''Failed to create online working copy''
     (http_response 500 ''Internal Server Error'' fault_xml) =
   Rejected (Value (JString ''Failed to create online working copy: Project does not exist'')) \<and>
   createHttpErrorCodeInterceptor example_env ''Failed to create online working copy''
     (http_response 500 ''Internal Server Error'' ''<Fault>'') =
   Rejected (Thrown (new_ParseError ''Error: Unclosed root tag'')) \<and>
   createHttpErrorCodeInterceptor example_env ''Failed to create online working copy''
     (http_response 500 ''Internal Server Error'' stateless_xml) =
   Rejected (Thrown (new_EmptyError
     ''Query $..faultstring[0] on undefined does not give any result'')) \<and>
   createHttpErrorCodeInterceptor example_env ''Failed to create online working copy''
     (http_response 500 ''Internal Server Error'' blank_xml) =
   Rejected (Thrown AssertionError)"
  using
    httpErrorCode_500_fault
      [where env = example_env and response = "http_response 500 ''Internal Server Error'' fault_xml"
         and st = "\<lparr>code = 500\<rparr>" and ctx = "''Failed to create online working copy''"]
    httpErrorCode_500_fault
      [where env = example_env and response = "http_response 500 ''Internal Server Error'' ''<Fault>''"
         and st = "\<lparr>code = 500\<rparr>" and ctx = "''Failed to create online working copy''"]
    httpErrorCode_500_fault
      [where env = example_env
         and response = "http_response 500 ''Internal Server Error'' stateless_xml"
         and st = "\<lparr>code = 500\<rparr>" and ctx = "''Failed to create online working copy''"]
    httpErrorCode_500_fault
      [where env = example_env and response = "http_response 500 ''Internal Server Error'' blank_xml"
         and st = "\<lparr>code = 500\<rparr>" and ctx = "''Failed to create online working copy''"]
  by (simp add: http_response_def example_env_def example_parseString_def
      example_query_def first_def error_toString_def example_documents)

text \<open>
  C7, as stated: every body that is not well-formed XML makes the result extraction fail
  with a ParseError. It fails for a body of white space only (status 200, not empty): the
  parser reports no error and no document, the query throws on the null document, and the
  promise is rejected with the assertion error of the query, which is no ParseError.
\<close>

theorem resultPipeline_blank_body:
  "example_parseString blank_xml = Inr JNull \<and>
   resultPipeline example_env ''Failed to create new app'' (http_response 200 ''OK'' blank_xml) =
     Rejected (Thrown AssertionError) \<and>
   error_class AssertionError \<noteq> ParseErrorClass"
  by (simp add: resultPipeline_def createHttpErrorCodeInterceptor_def parseResult_def
      parseAndQuery_def http_response_def example_env_def example_parseString_def
      example_query_def HTTP_STATUS_OK_RESPONSE_CODE_def AssertionError_def
      example_documents)

text \<open>
  C7, amended: for every non-polling call whose response has no transport error, status
  200 and a non-empty body, the result extraction runs the path query \<^verbatim>\<open>$..Result[0]\<close>
  over the parsed body and, when the first match is not empty, replaces the response body
  with it. For every body that the parser accepts and in which the query yields nothing,
  no match or an empty first match, it fails with an EmptyError; for every body that the
  XML parser rejects it fails with a ParseError. When the parser reports no error and the
  query throws, as on the null document of a blank body, the promise is rejected with the
  thrown error.
\<close>

theorem resultPipeline_extraction:
  assumes "error response = None" and "status response = Some st" and "code st = 200"
    and "entity response \<noteq> []"
  shows "(\<forall>err. parseString env (entity response) = Inl err \<longrightarrow>
      resultPipeline env ctx response =
        Rejected (Thrown (new_ParseError (error_toString err)))) \<and>
    (\<forall>tree thrown. parseString env (entity response) = Inr tree \<and>
        query env tree ''$..Result[0]'' = Inl thrown \<longrightarrow>
      resultPipeline env ctx response = Rejected (Thrown thrown)) \<and>
    (\<forall>tree matches. parseString env (entity response) = Inr tree \<and>
        query env tree ''$..Result[0]'' = Inr matches \<longrightarrow>
      (if isEmpty (first matches) then
         resultPipeline env ctx response =
           Rejected (Thrown (new_EmptyError
             (''Query $..Result[0] on '' @ js_toString (first matches) @
              '' does not give any result'')))
       else
         resultPipeline env ctx response = Fulfilled (set_entity (first matches) response)))"
proof -
  have "resultPipeline env ctx response =
      then_promise (parseAndQuery env (entity response) ''$..Result[0]'')
        (\<lambda>result. Fulfilled (set_entity result response))"
    using assms
    by (simp add: resultPipeline_def createHttpErrorCodeInterceptor_def parseResult_def
        HTTP_STATUS_OK_RESPONSE_CODE_def)
  then show ?thesis
    by (auto simp: parseAndQuery_def Let_def)
qed

theorem resultPipeline_extraction_witness:
  "resultPipeline example_env ''Failed to create new app'' (http_response 200 ''OK'' submitted_xml) =
     Fulfilled \<lparr>error = None, status = Some \<lparr>code = 200\<rparr>, statusMessage = ''OK'',
                entity = JString ''J1''\<rparr> \<and>
   resultPipeline example_env ''Failed to create new app'' (http_response 200 ''OK'' stateless_xml) =
     Rejected (Thrown (new_EmptyError ''Query $..Result[0] on undefined does not give any result'')) \<and>
   resultPipeline example_env ''Failed to create new app'' (http_response 200 ''OK'' empty_result_xml) =
     Rejected (Thrown (new_EmptyError ''Query $..Result[0] on  does not give any result'')) \<and>
   resultPipeline example_env ''Failed to create new app'' (http_response 200 ''OK'' ''<Job>'') =
     Rejected (Thrown (new_ParseError ''Error: Unclosed root tag'')) \<and>
   resultPipeline example_env ''Failed to create new app'' (http_response 200 ''OK'' blank_xml) =
     Rejected (Thrown AssertionError)"
  using
    resultPipeline_extraction
      [where env = example_env and response = "http_response 200 ''OK'' submitted_xml"
         and st = "\<lparr>code = 200\<rparr>" and ctx = "''Failed to create new app''"]
    resultPipeline_extraction
      [where env = example_env and response = "http_response 200 ''OK'' stateless_xml"
         and st = "\<lparr>code = 200\<rparr>" and ctx = "''Failed to create new app''"]
    resultPipeline_extraction
      [where env = example_env and response = "http_response 200 ''OK'' empty_result_xml"
         and st = "\<lparr>code = 200\<rparr>" and ctx = "''Failed to create new app''"]
    resultPipeline_extraction
      [where env = example_env and response = "http_response 200 ''OK'' ''<Job>''"
         and st = "\<lparr>code = 200\<rparr>" and ctx = "''Failed to create new app''"]
    resultPipeline_extraction
      [where env = example_env and response = "http_response 200 ''OK'' blank_xml"
         and st = "\<lparr>code = 200\<rparr>" and ctx = "''Failed to create new app''"]
  by (simp add: http_response_def example_env_def example_parseString_def
      example_query_def first_def error_toString_def set_entity_def example_documents)

section \<open>Committing\<close>

lemma awaitJobResult_trace_list:
  "\<exists>n. trace (snd (awaitJobResult env client jid \<lparr>responses = rs, trace = tr\<rparr>)) =
        tr @ replicate (Suc n) (HttpRequest (statusRequest env client jid))"
proof (induction rs arbitrary: tr)
  case Nil
  have "trace (snd (awaitJobResult env client jid \<lparr>responses = [], trace = tr\<rparr>)) =
        tr @ replicate (Suc 0) (HttpRequest (statusRequest env client jid))"
    by (simp add: awaitJobResult_exhausted)
  then show ?case by blast
next
  case (Cons r rs)
  let ?q = "HttpRequest (statusRequest env client jid)"
  from Cons.IH [of "tr @ [?q]"] obtain n where
    n: "trace (snd (awaitJobResult env client jid \<lparr>responses = rs, trace = tr @ [?q]\<rparr>)) =
        (tr @ [?q]) @ replicate (Suc n) ?q" by blast
  have more: "(tr @ [?q]) @ replicate (Suc n) ?q = tr @ replicate (Suc (Suc n)) ?q"
    by simp
  have one: "tr @ [?q] = tr @ replicate (Suc 0) ?q"
    by simp
  have "trace (snd (awaitJobResult env client jid \<lparr>responses = r # rs, trace = tr\<rparr>)) =
          tr @ replicate (Suc 0) ?q \<or>
        trace (snd (awaitJobResult env client jid \<lparr>responses = r # rs, trace = tr\<rparr>)) =
          tr @ replicate (Suc (Suc n)) ?q"
    unfolding awaitJobResult_step Let_def
    using n more one by (auto split: promise.splits simp del: replicate_Suc replicate.simps)
  then show ?case by blast
qed

lemma awaitJobResult_trace:
  "\<exists>n. trace (snd (awaitJobResult env client jid w)) =
        trace w @ replicate (Suc n) (HttpRequest (statusRequest env client jid))"
proof (cases w)
  case (fields rs tr)
  then show ?thesis
    using awaitJobResult_trace_list [of env client jid rs tr] by simp
qed

lemma apiClient_trace:
  "trace (snd (apiClient env client errMessage request w)) =
     trace w @ [HttpRequest (pathPrefix (projectsApiEndpoint client) request)]"
  by (simp add: apiClient_def transport_def split: list.splits)

lemma commitToTeamServer_trace:
  "\<exists>reqs. trace (snd (commitToTeamServer env client workingCopy branchName baseRevision w)) =
           trace w @ map HttpRequest reqs"
proof -
  let ?r = "commitToTeamServer env client workingCopy branchName baseRevision w"
  let ?request = "createRequestContent env CommitWorkingCopyChangesXml
     [(''Username'', js_of_option (username client)),
      (''ApiKey'', js_of_option (apikey client)),
      (''WorkingCopyId'', JString (wc_id (the workingCopy))),
      (''ProjectId'', JString (project_id (the (project (the workingCopy))))),
      (''Branch'', js_of_option branchName),
      (''Revision'', JNumber (Num (case baseRevision of None \<Rightarrow> - 1 | Some r \<Rightarrow> r)))]"
  let ?submitted = "apiClient env client ''Failed to commit to team server'' ?request w"
  let ?sent = "pathPrefix (projectsApiEndpoint client) ?request"
  consider (local) "?r = (fst ?r, w)"
    | (submit) "snd ?r = snd ?submitted"
    | (poll) jid where "snd ?r = snd (awaitJobResult env client jid (snd ?submitted))"
  proof (cases "workingCopy = None \<or> project (the workingCopy) = None \<or>
                (case baseRevision of None \<Rightarrow> - 1 | Some r \<Rightarrow> r) < - 1")
    case True
    then have "?r = (fst ?r, w)"
      by (auto simp: commitToTeamServer_def Let_def)
    then show ?thesis by (rule local)
  next
    case False
    then have r: "?r = then_io
        (then_io ?submitted (\<lambda>response. awaitJobResult env client (entity response)))
        (\<lambda>jobResult w'. (commitToTeamServer_revision (the workingCopy) branchName jobResult, w'))"
      by (auto simp: commitToTeamServer_def Let_def)
    obtain p w1 where s: "?submitted = (p, w1)" by (cases ?submitted)
    show ?thesis
    proof (cases p)
      case (Fulfilled response)
      obtain q w2 where a: "awaitJobResult env client (entity response) w1 = (q, w2)"
        by (cases "awaitJobResult env client (entity response) w1")
      have "snd ?r = snd (awaitJobResult env client (entity response) (snd ?submitted))"
        unfolding r s Fulfilled using a by (cases q) simp_all
      then show ?thesis by (rule poll)
    next
      case (Rejected e)
      have "snd ?r = snd ?submitted" unfolding r s Rejected by simp
      then show ?thesis by (rule submit)
    next
      case Pending
      have "snd ?r = snd ?submitted" unfolding r s Pending by simp
      then show ?thesis by (rule submit)
    qed
  qed
  then show ?thesis
  proof cases
    case local
    then have "trace (snd ?r) = trace w @ map HttpRequest []"
      by (metis append_Nil2 list.simps(8) snd_conv)
    then show ?thesis by blast
  next
    case submit
    then have "trace (snd ?r) = trace w @ map HttpRequest [?sent]"
      by (simp add: apiClient_trace)
    then show ?thesis by blast
  next
    case (poll jid)
    from awaitJobResult_trace [of env client jid "snd ?submitted"] obtain n where
      "trace (snd (awaitJobResult env client jid (snd ?submitted))) =
       trace (snd ?submitted) @ replicate (Suc n) (HttpRequest (statusRequest env client jid))"
      by blast
    with poll have "trace (snd ?r) =
        trace w @ map HttpRequest (?sent # replicate (Suc n) (statusRequest env client jid))"
      by (simp add: apiClient_trace)
    then show ?thesis by blast
  qed
qed

text \<open>
  C8. For every invocation of \<open>commit\<close> on a working copy, the calls made to the outside
  begin with the call of \<open>closeConnection\<close>, and HTTP requests follow it only when it
  invoked its success continuation: no request to the team server is issued before the
  connection has been closed successfully. When closing fails, no request is issued at all
  and the operation is rejected with the error of the close operation.
\<close>

theorem commit_closes_connection_first:
  "\<exists>reqs.
     trace (snd (commit env client wc branchName baseRevision w)) =
       trace w @ CloseConnection (closeConnection (model wc)) # map HttpRequest reqs \<and>
     (closeConnection (model wc) \<noteq> OnSuccess \<longrightarrow> reqs = []) \<and>
     (\<forall>err. closeConnection (model wc) = OnError err \<longrightarrow>
        fst (commit env client wc branchName baseRevision w) = Rejected err)"
proof (cases "closeConnection (model wc)")
  case OnSuccess
  let ?w' = "w\<lparr>trace := trace w @ [CloseConnection OnSuccess]\<rparr>"
  from commitToTeamServer_trace [of env client "Some wc" branchName baseRevision ?w']
  obtain reqs where
    "trace (snd (commitToTeamServer env client (Some wc) branchName baseRevision ?w')) =
     trace ?w' @ map HttpRequest reqs" by blast
  then have "trace (snd (commit env client wc branchName baseRevision w)) =
      trace w @ CloseConnection (closeConnection (model wc)) # map HttpRequest reqs"
    using OnSuccess by (simp add: commit_def)
  then show ?thesis using OnSuccess by (intro exI [of _ reqs]) simp
next
  case (OnError err)
  then have "trace (snd (commit env client wc branchName baseRevision w)) =
      trace w @ CloseConnection (closeConnection (model wc)) # map HttpRequest []"
    and "fst (commit env client wc branchName baseRevision w) = Rejected err"
    by (simp_all add: commit_def)
  then show ?thesis using OnError by (intro exI [of _ "[]"]) simp
next
  case NoCallback
  then have "trace (snd (commit env client wc branchName baseRevision w)) =
      trace w @ CloseConnection (closeConnection (model wc)) # map HttpRequest []"
    by (simp add: commit_def)
  then show ?thesis using NoCallback by (intro exI [of _ "[]"]) simp
qed

theorem commit_closes_connection_first_witness:
  "fst (commit example_env example_client
          (example_workingCopy (OnError (Value (JString ''connection lost'')))) None None
          \<lparr>responses = [http_response 200 ''OK'' submitted_xml], trace = []\<rparr>) =
     Rejected (Value (JString ''connection lost'')) \<and>
   trace (snd (commit example_env example_client
          (example_workingCopy (OnError (Value (JString ''connection lost'')))) None None
          \<lparr>responses = [http_response 200 ''OK'' submitted_xml], trace = []\<rparr>)) =
     [CloseConnection (OnError (Value (JString ''connection lost'')))]"
  using commit_closes_connection_first
    [where env = example_env and client = example_client
       and wc = "example_workingCopy (OnError (Value (JString ''connection lost'')))"
       and branchName = None and baseRevision = None
       and w = "\<lparr>responses = [http_response 200 ''OK'' submitted_xml], trace = []\<rparr>"]
  by (auto simp: example_workingCopy_def)

lemma commit_example:
  "commit example_env example_client (example_workingCopy OnSuccess) None None
     \<lparr>responses = [http_response 200 ''OK'' submitted_xml, http_response 200 ''OK'' running_xml,
                   http_response 200 ''OK'' committed_xml],
      trace = []\<rparr> =
   (Fulfilled \<lparr>num = Num 3,
               branch = \<lparr>branch_project = Some example_project, branch_name = None\<rparr>\<rparr>,
    \<lparr>responses = [],
     trace =
       [CloseConnection OnSuccess,
        HttpRequest
          \<lparr>path = ''https://sprintr.home.mendix.dev/ws/ProjectsAPI/9/soap1'',
           http_method = ''POST'',
           headers = [(''Content-Type'', ''text/xml;charset=UTF-8'')],
           request_entity =
             ''templates/CommitWorkingCopyChanges.xml Username=richard ApiKey=364f WorkingCopyId=wc-1 ProjectId=P-99 Branch=null Revision=-1'',
           mixin = []\<rparr>,
        HttpRequest (statusRequest example_env example_client (JString ''J1'')),
        HttpRequest (statusRequest example_env example_client (JString ''J1''))]\<rparr>)"
proof -
  have submitted:
    "resultPipeline example_env ''Failed to commit to team server''
       (http_response 200 ''OK'' submitted_xml) =
     Fulfilled (set_entity (JString ''J1'') (http_response 200 ''OK'' submitted_xml))"
    by (simp add: resultPipeline_def createHttpErrorCodeInterceptor_def parseResult_def
        parseAndQuery_def http_response_def HTTP_STATUS_OK_RESPONSE_CODE_def first_def
        example_env_def example_parseString_def example_query_def example_documents)
  have committed:
    "jobStatusPipeline example_env (http_response 200 ''OK'' committed_xml) =
       Fulfilled (set_entity
         \<lparr>jobId = JUndefined, startTime = JUndefined, endTime = JUndefined,
          state = JString ''Completed'', result = JString ''3'', errorMessage = JUndefined\<rparr>
         (http_response 200 ''OK'' committed_xml))"
    by (simp add: jobStatusPipeline_def createHttpErrorCodeInterceptor_def parseJobStatus_def
        parseJobResult_def http_response_def HTTP_STATUS_OK_RESPONSE_CODE_def first_def
        set_entity_def example_env_def example_parseString_def example_query_def
        example_documents)
  have three: "parseInt (JString ''3'') = Num 3"
    by (simp add: parseInt_def is_space_def digit_value_def)
  have payload: "compileXmlPayload example_env CommitWorkingCopyChangesXml
      [(''Username'', JString ''richard''), (''ApiKey'', JString ''364f''),
       (''WorkingCopyId'', JString ''wc-1''), (''ProjectId'', JString ''P-99''),
       (''Branch'', JNull), (''Revision'', JNumber (Num (- 1)))] =
     ''templates/CommitWorkingCopyChanges.xml Username=richard ApiKey=364f WorkingCopyId=wc-1 ProjectId=P-99 Branch=null Revision=-1''"
    by (simp add: example_env_def CommitWorkingCopyChangesXml_def templatePath_def
        show_int_def show_nat.simps digit_char_def)
  show ?thesis
    by (simp add: commit_def commitToTeamServer_def example_workingCopy_def project_def
        example_project_def apiClient_def transport_def pathPrefix_def createRequestContent_def
        compilePayload_def payload js_of_option_def example_client_def PROJECTS_API_PATH_def
        submitted set_entity_def awaitJobResult_step example_running committed
        JobState_index_simps commitToTeamServer_revision_def three loosely_null_def
        statusRequest_def)
qed

section \<open>Validation of the base revision\<close>

text \<open>
  C9, as stated: every call of \<open>commitToTeamServer\<close> with a base revision below -1 fails
  with the message "Invalid base revision" followed by the number. It fails when the
  working copy is null: the check of the working copy comes first and gives its own
  message. No request is sent in that case either.
\<close>

theorem commitToTeamServer_null_workingCopy:
  "commitToTeamServer example_env example_client None None (Some (- 2))
     \<lparr>responses = [http_response 200 ''OK'' submitted_xml], trace = []\<rparr> =
   (Rejected (Value (JString ''Working copy is empty or does not contain referral to project'')),
    \<lparr>responses = [http_response 200 ''OK'' submitted_xml], trace = []\<rparr>)"
  by (simp add: commitToTeamServer_def)

text \<open>
  C9, amended: for every call of \<open>commitToTeamServer\<close> with a working copy that is not null
  and refers to a project, and with a base revision strictly below -1, the operation is
  rejected with the message "Invalid base revision " followed by the given number, and
  no request is issued: the responses of the service and the log of calls are as before.
\<close>

theorem commitToTeamServer_invalid_base_revision:
  assumes "project wc = Some p" and "r < - 1"
  shows "commitToTeamServer env client (Some wc) branchName (Some r) w =
         (Rejected (Value (JString (''Invalid base revision '' @ show_int r))), w)"
  using assms by (simp add: commitToTeamServer_def)

theorem commitToTeamServer_invalid_base_revision_witness:
  "commitToTeamServer example_env example_client (Some (example_workingCopy OnSuccess))
     None (Some (- 2))
     \<lparr>responses = [http_response 200 ''OK'' submitted_xml], trace = []\<rparr> =
   (Rejected (Value (JString ''Invalid base revision -2'')),
    \<lparr>responses = [http_response 200 ''OK'' submitted_xml], trace = []\<rparr>)"
  using commitToTeamServer_invalid_base_revision
    [where wc = "example_workingCopy OnSuccess" and p = example_project and r = "- 2"
       and env = example_env and client = example_client and branchName = None
       and w = "\<lparr>responses = [http_response 200 ''OK'' submitted_xml], trace = []\<rparr>"]
  by (simp add: project_def example_workingCopy_def show_int_def show_nat.simps digit_char_def)

section \<open>The revision number of a commit\<close>








end
